theory Spec2Isabelle
  imports Complex_Main "HOL-Library.Sublist"
begin

section \<open>The transcription relay (server.js)\<close>

subsection \<open>JavaScript values used by the relay\<close>

text \<open>
  Strings are character lists. \<open>toLowerCase\<close> maps the ASCII capitals to their
  lower-case letters and leaves every other character as it is. JavaScript also
  lower-cases capitals outside ASCII; none of them becomes a character of the extensions
  the filter tests (the dot, the digits 3 and 4 and the letters a, b, c, e, f, g, l, m,
  o, p, v, w), so the filter's \<open>endsWith\<close> tests, the only use of
  \<open>toLowerCase\<close>, come out the same. \<open>startsWith\<close> and
  \<open>endsWith\<close> are the prefix and suffix tests of \<open>String.prototype\<close>.
  Numbers that come out of the provider's JSON are finite, so they are reals; the relay
  only tests them for truthiness (\<open>x || 0\<close>) and passes them on.
\<close>

definition toLowerCase :: "string \<Rightarrow> string" where
  "toLowerCase s =
     map (\<lambda>c. let n = (of_char c :: nat) in
                if 65 \<le> n \<and> n \<le> 90 then char_of (n + 32) else c) s"

definition startsWith :: "string \<Rightarrow> string \<Rightarrow> bool" where
  "startsWith s p = prefix p s"

definition endsWith :: "string \<Rightarrow> string \<Rightarrow> bool" where
  "endsWith s p = suffix p s"

text \<open>\<open>a || d\<close> on a possibly absent string, number or array: the empty string and
  zero are falsy, every array is truthy.\<close>

definition or_string :: "string option \<Rightarrow> string \<Rightarrow> string" where
  "or_string a d = (case a of None \<Rightarrow> d | Some v \<Rightarrow> if v = [] then d else v)"

definition or_number :: "real option \<Rightarrow> real \<Rightarrow> real" where
  "or_number a d = (case a of None \<Rightarrow> d | Some v \<Rightarrow> if v = 0 then d else v)"

definition or_array :: "'a list option \<Rightarrow> 'a list \<Rightarrow> 'a list" where
  "or_array a d = (case a of None \<Rightarrow> d | Some v \<Rightarrow> v)"

text \<open>\<open>xs.slice(0, n)\<close> on an array.\<close>

definition slice0 :: "nat \<Rightarrow> 'a list \<Rightarrow> 'a list" where
  "slice0 n xs = take n xs"

subsection \<open>Uploads and the file filter (server.js 30-65)\<close>

text \<open>The one file part of the multipart request, as the upload middleware hands it to
  the callbacks: the name and type the client declared, and the number of bytes it streams.\<close>

record file_part =
  originalname :: string
  mimetype :: string
  part_size :: nat

definition allowedMimes :: "string list" where
  "allowedMimes = [''audio/'', ''video/webm'']"

definition allowedExtensions :: "string list" where
  "allowedExtensions = [''.wav'', ''.mp3'', ''.m4a'', ''.ogg'', ''.webm'', ''.flac'']"

definition hasValidMime :: "file_part \<Rightarrow> bool" where
  "hasValidMime file = list_ex (\<lambda>mime. startsWith (mimetype file) mime) allowedMimes"

definition hasValidExtension :: "file_part \<Rightarrow> bool" where
  "hasValidExtension file =
     list_ex (\<lambda>ext. endsWith (toLowerCase (originalname file)) ext) allowedExtensions"

text \<open>\<open>fileFilter\<close> calls back with \<open>(null, true)\<close> or with a plain \<open>Error\<close>; the
  result is the error's message or the accept flag.\<close>

definition fileFilter :: "file_part \<Rightarrow> string + bool" where
  "fileFilter file =
     (if hasValidMime file \<or> hasValidExtension file then Inr True
      else Inl ''Only audio files are allowed!'')"

definition fileSize :: nat where
  "fileSize = 10 * 1024 * 1024"

subsection \<open>Server state\<close>

text \<open>
  What the relay can change outside the response: the upload directory, the files in it
  (by path), and the calls made to the recognition provider (the path whose bytes were
  sent). Console output is left out.
\<close>

record server =
  uploads_dir :: bool
  files :: "string set"
  provider_calls :: "string list"

definition mkdir_uploads :: "server \<Rightarrow> server" where
  "mkdir_uploads s = (if \<not> uploads_dir s then s\<lparr>uploads_dir := True\<rparr> else s)"

definition write_file :: "string \<Rightarrow> server \<Rightarrow> server" where
  "write_file p s = s\<lparr>files := insert p (files s)\<rparr>"

definition unlink :: "string \<Rightarrow> server \<Rightarrow> server" where
  "unlink p s = s\<lparr>files := files s - {p}\<rparr>"

text \<open>\<open>req.file\<close> as the handler reads it.\<close>

record req_file =
  filename :: string
  path :: string
  size_bytes :: nat
  file_mimetype :: string

text \<open>An error passed to \<open>next\<close>: the plain \<open>Error\<close> of the file filter, or a
  \<open>MulterError\<close> with its code and message.\<close>

datatype upload_error = Error string | MulterError string string

text \<open>
  The storage callbacks: \<open>destination\<close> creates \<open>uploads\<close> when it is missing;
  \<open>filename\<close> is \<open>audio-\<close>, a suffix made from the clock and a random number, and
  \<open>path.extname\<close> of the original name. The suffix and the extension are taken as given.
\<close>

definition storage_filename :: "string \<Rightarrow> string \<Rightarrow> string" where
  "storage_filename uniqueSuffix ext = ''audio-'' @ uniqueSuffix @ ext"

definition storage_path :: "string \<Rightarrow> string \<Rightarrow> string" where
  "storage_path uniqueSuffix ext = ''uploads/'' @ storage_filename uniqueSuffix ext"

text \<open>
  Modelled from the spec: the upload middleware \<open>upload.single('audio')\<close>. It is the
  multer library's, which is not among the sources; only its configuration (lines 30-65:
  the storage callbacks, the size limit and the file filter) is. The specification has
  the relay accept a single file field whose size is within a fixed ceiling and whose
  declared type or extension is in the allowed audio set, reject every other upload and
  never persist a rejected file. So, for a request that carries at most one file part,
  in the field \<open>audio\<close>: the file filter is asked before storage is touched, and its
  error goes to \<open>next\<close>; a part that passes is streamed to the path the storage
  callbacks chose; a part that reaches \<open>limits.fileSize\<close> has what was written of
  it removed and \<open>LIMIT_FILE_SIZE\<close> goes to \<open>next\<close>; otherwise \<open>req.file\<close>
  is set. The ceiling itself is excluded, as the relay's own answer to this error says
  (line 194: the file must be smaller than 10MB): a part of exactly
  \<open>limits.fileSize\<close> bytes is rejected.
\<close>

definition upload_single ::
  "string \<Rightarrow> string \<Rightarrow> server \<Rightarrow> file_part option \<Rightarrow> server \<times> (upload_error + req_file option)" where
  "upload_single uniqueSuffix ext s part =
     (case part of
        None \<Rightarrow> (s, Inr None)
      | Some file \<Rightarrow>
          (case fileFilter file of
             Inl msg \<Rightarrow> (s, Inl (Error msg))
           | Inr accept \<Rightarrow>
               if \<not> accept then (s, Inr None)
               else
                 let p = storage_path uniqueSuffix ext;
                     s1 = write_file p (mkdir_uploads s)
                 in if fileSize \<le> part_size file
                    then (unlink p s1, Inl (MulterError ''LIMIT_FILE_SIZE'' ''File too large''))
                    else (s1, Inr (Some \<lparr>filename = storage_filename uniqueSuffix ext,
                                          path = p,
                                          size_bytes = part_size file,
                                          file_mimetype = mimetype file\<rparr>))))"

subsection \<open>The provider's result\<close>

text \<open>The result is read through optional chaining, so every level may be absent.\<close>

record timed_word =
  word :: string
  word_start :: real
  word_end :: real

record alternative =
  alt_transcript :: "string option"
  alt_confidence :: "real option"
  alt_words :: "timed_word list option"

record channel =
  alternatives :: "alternative list option"

record dg_results =
  channels :: "channel list option"

record dg_metadata =
  md_duration :: "real option"

record dg_result =
  results :: "dg_results option"
  metadata :: "dg_metadata option"

text \<open>\<open>xs?.[0]\<close>: absent when the array is absent or empty.\<close>

definition first_opt :: "'a list option \<Rightarrow> 'a option" where
  "first_opt xs = (case xs of None \<Rightarrow> None | Some [] \<Rightarrow> None | Some (x # _) \<Rightarrow> Some x)"

text \<open>\<open>result.results?.channels?.[0]?.alternatives?.[0]\<close>\<close>

definition first_alternative :: "dg_result \<Rightarrow> alternative option" where
  "first_alternative result =
     (case results result of
        None \<Rightarrow> None
      | Some rs \<Rightarrow>
          (case first_opt (channels rs) of
             None \<Rightarrow> None
           | Some ch \<Rightarrow> first_opt (alternatives ch)))"

definition chain_transcript :: "dg_result \<Rightarrow> string option" where
  "chain_transcript result = Option.bind (first_alternative result) alt_transcript"

definition chain_confidence :: "dg_result \<Rightarrow> real option" where
  "chain_confidence result = Option.bind (first_alternative result) alt_confidence"

definition chain_words :: "dg_result \<Rightarrow> timed_word list option" where
  "chain_words result = Option.bind (first_alternative result) alt_words"

definition chain_duration :: "dg_result \<Rightarrow> real option" where
  "chain_duration result = Option.bind (metadata result) md_duration"

subsection \<open>Responses\<close>

record response_metadata =
  model :: string
  language :: string
  processed_at :: string

record transcription =
  transcript :: string
  confidence :: real
  word_count :: nat
  duration :: real
  words :: "timed_word list"
  response_meta :: response_metadata

text \<open>A body is \<open>{success: true, ...}\<close> or \<open>{error, message}\<close>; a response is a status
  code and a body.\<close>

datatype body = Success transcription | Failure string string

type_synonym response = "nat \<times> body"

subsection \<open>The handler of POST /api/transcribe (server.js 82-169)\<close>

text \<open>
  What the environment does during one request: reading the stored file throws, the
  provider call throws, or the provider returns its pair of \<open>result\<close> and \<open>error\<close>
  (an error carries an optional message).
\<close>

datatype io =
    ReadThrows string
  | ProviderThrows string
  | ProviderReturns "dg_result option" "string option option"

definition options_model :: string where
  "options_model = ''nova-2''"

definition options_language :: string where
  "options_language = ''en-US''"

text \<open>The \<open>catch\<close> block: delete the file if it is still there, answer 500.\<close>

definition catch_block :: "server \<Rightarrow> req_file option \<Rightarrow> string \<Rightarrow> server \<times> response" where
  "catch_block s file msg =
     (let s1 = (case file of
                  None \<Rightarrow> s
                | Some f \<Rightarrow> if path f \<in> files s then unlink (path f) s else s)
      in (s1, (500, Failure ''Internal server error''
                     (or_string (Some msg) ''An unexpected error occurred''))))"

definition transcribe :: "string \<Rightarrow> server \<Rightarrow> req_file option \<Rightarrow> io \<Rightarrow> server \<times> response" where
  "transcribe now s file env =
     (case file of
        None \<Rightarrow> (s, (400, Failure ''No audio file provided'' ''Please upload an audio file''))
      | Some f \<Rightarrow>
          (case env of
             ReadThrows msg \<Rightarrow> catch_block s file msg
           | ProviderThrows msg \<Rightarrow>
               catch_block (s\<lparr>provider_calls := provider_calls s @ [path f]\<rparr>) file msg
           | ProviderReturns result error \<Rightarrow>
               let s1 = s\<lparr>provider_calls := provider_calls s @ [path f]\<rparr> in
               (case error of
                  Some e \<Rightarrow>
                    (s1, (500, Failure ''Transcription failed''
                                 (or_string e ''Unknown error occurred'')))
                | None \<Rightarrow>
                    (case result of
                       None \<Rightarrow>
                         catch_block s1 file ''Cannot read properties of null (reading 'results')''
                     | Some r \<Rightarrow>
                         let t = or_string (chain_transcript r) [];
                             c = or_number (chain_confidence r) 0;
                             ws = or_array (chain_words r) []
                         in (unlink (path f) s1,
                             (200, Success \<lparr>transcript = t,
                                            confidence = c,
                                            word_count = length ws,
                                            duration = or_number (chain_duration r) 0,
                                            words = slice0 10 ws,
                                            response_meta =
                                              \<lparr>model = options_model,
                                               language = options_language,
                                               processed_at = now\<rparr>\<rparr>))))))"

subsection \<open>The error-handling middleware (server.js 189-204)\<close>

definition error_middleware :: "upload_error \<Rightarrow> response" where
  "error_middleware err =
     (case err of
        MulterError code msg \<Rightarrow>
          if code = ''LIMIT_FILE_SIZE''
          then (400, Failure ''File too large'' ''Audio file must be smaller than 10MB'')
          else (500, Failure ''Internal server error''
                       (or_string (Some msg) ''An unexpected error occurred''))
      | Error msg \<Rightarrow>
          (500, Failure ''Internal server error''
                  (or_string (Some msg) ''An unexpected error occurred'')))"

subsection \<open>The route\<close>

text \<open>One request to \<open>POST /api/transcribe\<close>: the upload middleware, then the handler,
  or the error middleware when the upload middleware passed an error on.\<close>

record request_env =
  uniqueSuffix :: string
  ext :: string
  now :: string
  provider_io :: io

definition post_transcribe :: "request_env \<Rightarrow> server \<Rightarrow> file_part option \<Rightarrow> server \<times> response" where
  "post_transcribe env s part =
     (case upload_single (uniqueSuffix env) (ext env) s part of
        (s1, Inl err) \<Rightarrow> (s1, error_middleware err)
      | (s1, Inr file) \<Rightarrow> transcribe (now env) s1 file (provider_io env))"

text \<open>An upload is accepted when the filter passes it and it is smaller than the size
  limit.\<close>

definition accepted :: "file_part \<Rightarrow> bool" where
  "accepted file = (fileFilter file = Inr True \<and> part_size file < fileSize)"

definition status :: "server \<times> response \<Rightarrow> nat" where
  "status r = fst (snd r)"

definition body_of :: "server \<times> response \<Rightarrow> body" where
  "body_of r = snd (snd r)"

subsection \<open>Counting the words of a text\<close>

text \<open>
  The number of words in a transcript text as the specification's scenario counts them:
  the maximal runs of characters other than the space. This definition follows the
  specification, not the code; the relay never computes it.
\<close>

fun count_runs :: "bool \<Rightarrow> string \<Rightarrow> nat" where
  "count_runs inside [] = 0"
| "count_runs inside (c # cs) =
     (if c = CHR '' '' then count_runs False cs
      else (if inside then 0 else 1) + count_runs True cs)"

definition words_in_text :: "string \<Rightarrow> nat" where
  "words_in_text t = count_runs False t"

section \<open>The capture and upload client (public/script.js)\<close>

subsection \<open>Client state\<close>

text \<open>
  A media stream and the recorder made from it are known by the stream's number; a chunk
  of recorded data is its bytes. What is submitted is a picked or dropped file, or the
  blob built from the recorded chunks with its type.
\<close>

type_synonym stream = nat

type_synonym chunk = "nat list"

datatype recorder = MediaRecorder stream

record client_file =
  file_name :: string
  file_type :: string

datatype audio_data = File client_file | Blob "chunk list" string

text \<open>
  Text the client writes into the page. Number formatting is floating-point arithmetic
  of the browser, so a formatted number is kept as the number under the name of its
  format: \<open>Math.round(x * 100)\<close> followed by a percent sign, \<open>x.toFixed(1)\<close> followed
  by \<open>s\<close>, and a count written as it is.
\<close>

datatype page_text = Plain string | RoundedPercent real | Fixed1Seconds real | Count nat

text \<open>The result panel holds the placeholder markup or the transcription markup around
  a text.\<close>

datatype panel = Placeholder | TranscriptionContent string

text \<open>The file a download produces: the time stamp in its name, the locale time in its
  first line, and the fields of the stored result that the template prints.\<close>

record download =
  stamp :: nat
  generated :: string
  download_model :: string
  download_confidence :: page_text
  download_duration :: page_text
  download_word_count :: page_text
  download_transcript :: string

text \<open>
  The fields of \<open>SpeechToTextApp\<close>, the properties of the page elements the methods
  write, and what has left the client: the bodies posted to \<open>/api/transcribe\<close>, the
  texts written to the clipboard and the files downloaded. Status messages are kept in
  the order shown; their removal by timer and the heights of the visualisation bars are
  left out.
\<close>

record app =
  mediaRecorder :: "recorder option"
  audioChunks :: "chunk list"
  isRecording :: bool
  audioContext :: "stream option"
  analyser :: "stream option"
  microphone :: "stream option"
  recordBtn_disabled :: bool
  stopBtn_disabled :: bool
  statusText :: string
  statusText_recording :: bool
  bars_active :: bool
  audioPreview_src :: "audio_data option"
  audioPreview_display :: string
  uploadArea_dragover :: bool
  transcriptionResult :: panel
  transcriptionMeta_display :: string
  confidenceScore :: page_text
  wordCount :: page_text
  audioDuration :: page_text
  modelUsed :: page_text
  copyBtn_disabled :: bool
  downloadBtn_disabled :: bool
  clearBtn_disabled :: bool
  currentTranscription :: "transcription option"
  processingIndicator_display :: string
  statusMessages :: "(string \<times> string) list"
  requests :: "audio_data list"
  clipboard :: "string list"
  downloads :: "download list"

subsection \<open>Status and processing indicator (script.js 333-350)\<close>

definition showProcessing :: "app \<Rightarrow> bool \<Rightarrow> app" where
  "showProcessing s show =
     s\<lparr>processingIndicator_display := (if show then ''block'' else ''none'')\<rparr>"

definition showStatus :: "app \<Rightarrow> string \<Rightarrow> string \<Rightarrow> app" where
  "showStatus s message type = s\<lparr>statusMessages := statusMessages s @ [(message, type)]\<rparr>"

subsection \<open>Recording (script.js 62-178)\<close>

text \<open>The microphone check at start-up: granted or denied.\<close>

definition checkMicrophonePermission :: "app \<Rightarrow> bool \<Rightarrow> app" where
  "checkMicrophonePermission s granted =
     (if granted then showStatus s ''Microphone access granted'' ''success''
      else (showStatus s ''Microphone access denied. File upload is still available.'' ''error'')
             \<lparr>recordBtn_disabled := True\<rparr>)"

definition updateRecordingUI :: "app \<Rightarrow> bool \<Rightarrow> app" where
  "updateRecordingUI s recording =
     (if recording
      then s\<lparr>recordBtn_disabled := True, stopBtn_disabled := False,
              statusText := ''Recording...'', statusText_recording := True,
              bars_active := True\<rparr>
      else s\<lparr>recordBtn_disabled := False, stopBtn_disabled := True,
              statusText := ''Ready to record'', statusText_recording := False,
              bars_active := False\<rparr>)"

definition startAudioVisualization :: "app \<Rightarrow> stream \<Rightarrow> app" where
  "startAudioVisualization s st =
     s\<lparr>audioContext := Some st, analyser := Some st, microphone := Some st\<rparr>"

definition stopAudioVisualization :: "app \<Rightarrow> app" where
  "stopAudioVisualization s =
     (if audioContext s \<noteq> None then s\<lparr>audioContext := None\<rparr> else s)"

text \<open>
  \<open>startRecording\<close> first awaits \<open>getUserMedia\<close> (line 76) and changes nothing
  before that settles. What the browser does from there on: \<open>getUserMedia\<close> rejects;
  it gives a stream and the \<open>MediaRecorder\<close> constructor throws; the recorder's
  \<open>start\<close> throws; creating the audio context throws; or everything succeeds.
  \<open>startRecording s env\<close> is the function from the moment the await settles, on the
  state \<open>s\<close> of that moment.
\<close>

datatype capture_env =
    GetUserMediaRejects string
  | MediaRecorderThrows stream string
  | StartThrows stream string
  | VisualizationThrows stream string
  | Started stream

definition armed :: "app \<Rightarrow> stream \<Rightarrow> app" where
  "armed s st = s\<lparr>mediaRecorder := Some (MediaRecorder st), audioChunks := [], isRecording := True\<rparr>"

definition startRecording :: "app \<Rightarrow> capture_env \<Rightarrow> app" where
  "startRecording s env =
     (case env of
        GetUserMediaRejects msg \<Rightarrow>
          showStatus s (''Failed to start recording: '' @ msg) ''error''
      | MediaRecorderThrows st msg \<Rightarrow>
          showStatus s (''Failed to start recording: '' @ msg) ''error''
      | StartThrows st msg \<Rightarrow>
          showStatus (armed s st) (''Failed to start recording: '' @ msg) ''error''
      | VisualizationThrows st msg \<Rightarrow>
          showStatus (updateRecordingUI (armed s st) True)
            (''Failed to start recording: '' @ msg) ''error''
      | Started st \<Rightarrow>
          showStatus (startAudioVisualization (updateRecordingUI (armed s st) True) st)
            ''Recording started'' ''success'')"

text \<open>\<open>mediaRecorder.ondataavailable\<close>\<close>

definition ondataavailable :: "app \<Rightarrow> chunk \<Rightarrow> app" where
  "ondataavailable s data =
     (if length data > 0 then s\<lparr>audioChunks := audioChunks s @ [data]\<rparr> else s)"

definition stopRecording :: "app \<Rightarrow> app" where
  "stopRecording s =
     (if mediaRecorder s \<noteq> None \<and> isRecording s
      then showStatus (stopAudioVisualization (s\<lparr>isRecording := False\<rparr>))
             ''Recording stopped'' ''success''
      else s)"

subsection \<open>Results (script.js 250-331)\<close>

definition displayTranscription :: "app \<Rightarrow> transcription \<Rightarrow> app" where
  "displayTranscription s result =
     s\<lparr>transcriptionResult :=
         TranscriptionContent
           (or_string (Some (transcript result)) ''No speech detected in the audio.''),
       confidenceScore := RoundedPercent (confidence result),
       wordCount := Count (word_count result),
       audioDuration := Fixed1Seconds (duration result),
       modelUsed := Plain (model (response_meta result)),
       transcriptionMeta_display := ''block'',
       copyBtn_disabled := False,
       downloadBtn_disabled := False,
       clearBtn_disabled := False,
       currentTranscription := Some result\<rparr>"

text \<open>\<open>copyTranscription\<close>; the flag says whether the clipboard write is fulfilled.\<close>

definition copyTranscription :: "app \<Rightarrow> bool \<Rightarrow> app" where
  "copyTranscription s fulfilled =
     (case currentTranscription s of
        None \<Rightarrow> s
      | Some r \<Rightarrow>
          if transcript r = [] then s
          else if fulfilled
          then showStatus (s\<lparr>clipboard := clipboard s @ [transcript r]\<rparr>)
                 ''Transcription copied to clipboard!'' ''success''
          else showStatus s ''Failed to copy transcription'' ''error'')"

text \<open>\<open>downloadTranscription\<close>, with \<open>Date.now()\<close> and the locale time as given.\<close>

definition downloadTranscription :: "app \<Rightarrow> nat \<Rightarrow> string \<Rightarrow> app" where
  "downloadTranscription s date_now locale_time =
     (case currentTranscription s of
        None \<Rightarrow> s
      | Some r \<Rightarrow>
          showStatus
            (s\<lparr>downloads := downloads s @
                 [\<lparr>stamp = date_now,
                   generated = locale_time,
                   download_model = model (response_meta r),
                   download_confidence = RoundedPercent (confidence r),
                   download_duration = Fixed1Seconds (duration r),
                   download_word_count = Count (word_count r),
                   download_transcript = transcript r\<rparr>]\<rparr>)
            ''Transcription downloaded!'' ''success'')"

definition clearTranscription :: "app \<Rightarrow> app" where
  "clearTranscription s =
     showStatus
       (s\<lparr>transcriptionResult := Placeholder,
          transcriptionMeta_display := ''none'',
          copyBtn_disabled := True,
          downloadBtn_disabled := True,
          clearBtn_disabled := True,
          currentTranscription := None,
          audioPreview_display := ''none''\<rparr>)
       ''Transcription cleared'' ''success''"

subsection \<open>Submission (script.js 221-248)\<close>

text \<open>
  How the request ends: \<open>fetch\<close> rejects, reading the body as JSON rejects, or the
  body is one of the relay's two shapes. The client does not look at the status code.
\<close>

datatype fetch_outcome = FetchRejects string | JsonRejects string | Parsed body

text \<open>\<open>transcribeAudio\<close> up to the \<open>await\<close> of \<open>fetch\<close>: the indicator is shown
  and the form is posted.\<close>

definition transcribeAudio_begin :: "app \<Rightarrow> audio_data \<Rightarrow> app" where
  "transcribeAudio_begin s audioData =
     (showProcessing s True)\<lparr>requests := requests s @ [audioData]\<rparr>"

text \<open>The rest of the \<open>try\<close> block: the state it leaves and the message of the error
  it throws, if it throws.\<close>

definition try_block :: "app \<Rightarrow> fetch_outcome \<Rightarrow> app \<times> string option" where
  "try_block s outcome =
     (case outcome of
        FetchRejects msg \<Rightarrow> (s, Some msg)
      | JsonRejects msg \<Rightarrow> (s, Some msg)
      | Parsed (Success result) \<Rightarrow>
          (showStatus (displayTranscription s result)
             ''Transcription completed successfully!'' ''success'', None)
      | Parsed (Failure e message) \<Rightarrow>
          (s, Some (or_string (Some message) ''Transcription failed'')))"

definition transcribeAudio_finish :: "app \<Rightarrow> fetch_outcome \<Rightarrow> app" where
  "transcribeAudio_finish s outcome =
     (case try_block s outcome of
        (s1, None) \<Rightarrow> showProcessing s1 False
      | (s1, Some msg) \<Rightarrow>
          showProcessing (showStatus s1 (''Transcription failed: '' @ msg) ''error'') False)"

definition transcribeAudio :: "app \<Rightarrow> audio_data \<Rightarrow> fetch_outcome \<Rightarrow> app" where
  "transcribeAudio s audioData outcome =
     transcribeAudio_finish (transcribeAudio_begin s audioData) outcome"

text \<open>\<open>mediaRecorder.onstop\<close>: the blob goes to \<open>processAudioBlob\<close>, which shows the
  preview and starts the submission; the recording controls are reset before the
  request ends.\<close>

definition processAudioBlob_begin :: "app \<Rightarrow> audio_data \<Rightarrow> app" where
  "processAudioBlob_begin s blob =
     transcribeAudio_begin
       (s\<lparr>audioPreview_src := Some blob, audioPreview_display := ''block''\<rparr>) blob"

definition onstop :: "app \<Rightarrow> fetch_outcome \<Rightarrow> app" where
  "onstop s outcome =
     transcribeAudio_finish
       (updateRecordingUI
          (processAudioBlob_begin s (Blob (audioChunks s) ''audio/webm'')) False)
       outcome"

subsection \<open>Picking and dropping files (script.js 189-219)\<close>

text \<open>\<open>handleFileSelect\<close>, on the files of the input element.\<close>

definition handleFileSelect :: "app \<Rightarrow> client_file list \<Rightarrow> fetch_outcome \<Rightarrow> app" where
  "handleFileSelect s selected outcome =
     (case selected of
        [] \<Rightarrow> s
      | file # _ \<Rightarrow> transcribeAudio s (File file) outcome)"

definition handleDragOver :: "app \<Rightarrow> app" where
  "handleDragOver s = s\<lparr>uploadArea_dragover := True\<rparr>"

definition handleDragLeave :: "app \<Rightarrow> app" where
  "handleDragLeave s = s\<lparr>uploadArea_dragover := False\<rparr>"

text \<open>\<open>handleFileDrop\<close>, on the files of the drop's data transfer.\<close>

definition handleFileDrop :: "app \<Rightarrow> client_file list \<Rightarrow> fetch_outcome \<Rightarrow> app" where
  "handleFileDrop s dropped outcome =
     (let s1 = s\<lparr>uploadArea_dragover := False\<rparr> in
      case dropped of
        [] \<Rightarrow> s1
      | file # _ \<Rightarrow>
          if startsWith (file_type file) ''audio/''
          then transcribeAudio s1 (File file) outcome
          else showStatus s1 ''Please upload an audio file'' ''error'')"

subsection \<open>Clicks on the record button and events during capture\<close>

text \<open>
  A client together with the starts that were requested and still await
  \<open>getUserMedia\<close>.
\<close>

record session =
  client :: app
  pending_starts :: nat

text \<open>
  Modelled from the spec: the record button and the dispatch of its clicks. The button
  is an element of the page (index.html, not among the sources) and the dispatch is the
  browser's; the sources only register the listener (line 46) and set the button's
  \<open>disabled\<close> property (lines 70, 130, 136). The specification's capture state machine
  has no re-entry from Capturing into Capturing: a second start is a no-op while already
  capturing. So a click on the disabled button dispatches nothing, and a click on the
  enabled button calls \<open>startRecording\<close>, which is then pending on its await.
\<close>

definition click_recordBtn :: "session \<Rightarrow> session" where
  "click_recordBtn c =
     (if recordBtn_disabled (client c) then c
      else c\<lparr>pending_starts := Suc (pending_starts c)\<rparr>)"

text \<open>\<open>getUserMedia\<close> settles for a pending start: \<open>startRecording\<close> goes on from its
  await, on the client as it is by then.\<close>

definition getUserMedia_settles :: "session \<Rightarrow> capture_env \<Rightarrow> session" where
  "getUserMedia_settles c env =
     (case pending_starts c of
        0 \<Rightarrow> c
      | Suc n \<Rightarrow> c\<lparr>client := startRecording (client c) env, pending_starts := n\<rparr>)"

text \<open>
  What can happen while the client is capturing, short of stopping: a chunk arrives, a
  start requested earlier settles, a file is picked or dropped, something is dragged
  over the upload area, or one of the result actions is used.
\<close>

datatype capture_event =
    DataAvailable chunk
  | Settles capture_env
  | FilePicked "client_file list" fetch_outcome
  | FileDropped "client_file list" fetch_outcome
  | DragOver
  | DragLeave
  | Copy bool
  | Download nat string
  | Clear

definition during_capture :: "session \<Rightarrow> capture_event \<Rightarrow> session" where
  "during_capture c ev =
     (case ev of
        DataAvailable data \<Rightarrow> c\<lparr>client := ondataavailable (client c) data\<rparr>
      | Settles env \<Rightarrow> getUserMedia_settles c env
      | FilePicked selected outcome \<Rightarrow> c\<lparr>client := handleFileSelect (client c) selected outcome\<rparr>
      | FileDropped dropped outcome \<Rightarrow> c\<lparr>client := handleFileDrop (client c) dropped outcome\<rparr>
      | DragOver \<Rightarrow> c\<lparr>client := handleDragOver (client c)\<rparr>
      | DragLeave \<Rightarrow> c\<lparr>client := handleDragLeave (client c)\<rparr>
      | Copy fulfilled \<Rightarrow> c\<lparr>client := copyTranscription (client c) fulfilled\<rparr>
      | Download date_now locale_time \<Rightarrow>
          c\<lparr>client := downloadTranscription (client c) date_now locale_time\<rparr>
      | Clear \<Rightarrow> c\<lparr>client := clearTranscription (client c)\<rparr>)"


subsection \<open>Concrete states and inputs for the examples\<close>

text \<open>A relay with an empty upload directory.\<close>

definition empty_server :: server where
  "empty_server = \<lparr>uploads_dir = True, files = {}, provider_calls = []\<rparr>"

text \<open>A client right after construction: the fields as the constructor sets them, the
  page as \<open>clearTranscription\<close> and \<open>updateRecordingUI(false)\<close> leave it, nothing sent.\<close>

definition fresh_app :: app where
  "fresh_app =
     \<lparr>mediaRecorder = None, audioChunks = [], isRecording = False,
      audioContext = None, analyser = None, microphone = None,
      recordBtn_disabled = False, stopBtn_disabled = True,
      statusText = ''Ready to record'', statusText_recording = False, bars_active = False,
      audioPreview_src = None, audioPreview_display = ''none'',
      uploadArea_dragover = False,
      transcriptionResult = Placeholder, transcriptionMeta_display = ''none'',
      confidenceScore = Plain [], wordCount = Plain [], audioDuration = Plain [],
      modelUsed = Plain [],
      copyBtn_disabled = True, downloadBtn_disabled = True, clearBtn_disabled = True,
      currentTranscription = None,
      processingIndicator_display = ''none'',
      statusMessages = [], requests = [], clipboard = [], downloads = []\<rparr>"

definition wav_part :: file_part where
  "wav_part = \<lparr>originalname = ''speech.wav'', mimetype = ''audio/wav'', part_size = 96044\<rparr>"

definition txt_part :: file_part where
  "txt_part = \<lparr>originalname = ''notes.txt'', mimetype = ''text/plain'', part_size = 12\<rparr>"

definition big_part :: file_part where
  "big_part = \<lparr>originalname = ''long.wav'', mimetype = ''audio/wav'', part_size = 15728640\<rparr>"

text \<open>An audio part of exactly \<open>limits.fileSize\<close> bytes.\<close>

definition edge_part :: file_part where
  "edge_part = \<lparr>originalname = ''edge.wav'', mimetype = ''audio/wav'', part_size = 10485760\<rparr>"

definition txt_file :: client_file where
  "txt_file = \<lparr>file_name = ''notes.txt'', file_type = ''text/plain''\<rparr>"

definition env_with :: "io \<Rightarrow> request_env" where
  "env_with x =
     \<lparr>uniqueSuffix = ''1718000000000-42'', ext = ''.wav'',
      now = ''2025-06-22T08:15:34.324Z'', provider_io = x\<rparr>"

definition a_word :: "string \<Rightarrow> timed_word" where
  "a_word w = \<lparr>word = w, word_start = 0, word_end = 1\<rparr>"

definition result_with ::
  "string option \<Rightarrow> real option \<Rightarrow> timed_word list option \<Rightarrow> dg_result" where
  "result_with t c ws =
     \<lparr>results = Some \<lparr>channels = Some [\<lparr>alternatives =
         Some [\<lparr>alt_transcript = t, alt_confidence = c, alt_words = ws\<rparr>]\<rparr>]\<rparr>,
      metadata = Some \<lparr>md_duration = Some 3\<rparr>\<rparr>"

definition twelve_words :: "timed_word list" where
  "twelve_words =
     map a_word [''the'', ''quick'', ''brown'', ''fox'', ''jumps'', ''over'',
                 ''the'', ''lazy'', ''dog'', ''and'', ''runs'', ''away'']"

text \<open>What the relay answers when the provider returns the transcript \<open>hello world\<close>
  with confidence 1, duration 3 and no word list.\<close>

definition hello_response :: transcription where
  "hello_response =
     \<lparr>transcript = ''hello world'', confidence = 1, word_count = 0, duration = 3,
      words = [],
      response_meta = \<lparr>model = ''nova-2'', language = ''en-US'',
                        processed_at = ''2025-06-22T08:15:34.324Z''\<rparr>\<rparr>"

text \<open>A response whose transcript is empty.\<close>

definition silent_response :: transcription where
  "silent_response =
     \<lparr>transcript = [], confidence = 0, word_count = 0, duration = 3,
      words = [],
      response_meta = \<lparr>model = ''nova-2'', language = ''en-US'',
                        processed_at = ''2025-06-22T08:15:34.324Z''\<rparr>\<rparr>"

text \<open>A session on a fresh client in which the record button was clicked twice before
  the microphone was granted; then the first start succeeds and a chunk arrives.\<close>

definition clicked_twice :: session where
  "clicked_twice = click_recordBtn (click_recordBtn \<lparr>client = fresh_app, pending_starts = 0\<rparr>)"

definition first_start_running :: session where
  "first_start_running =
     during_capture (getUserMedia_settles clicked_twice (Started 1))
       (DataAvailable [82, 73, 70, 70])"

section \<open>Properties of the relay\<close>

subsection \<open>Auxiliary facts\<close>

lemma wav_part_passes: "fileFilter wav_part = Inr True"
  by (simp add: fileFilter_def hasValidMime_def allowedMimes_def startsWith_def wav_part_def)

lemma txt_part_fails: "fileFilter txt_part = Inl ''Only audio files are allowed!''"
  unfolding txt_part_def by code_simp

lemma accepted_wav_part: "accepted wav_part"
  by (simp add: accepted_def wav_part_passes) (simp add: wav_part_def fileSize_def)

lemma fileFilter_cases:
  "fileFilter f = Inr True \<or> fileFilter f = Inl ''Only audio files are allowed!''"
  by (simp add: fileFilter_def)

lemma upload_rejected_type:
  "fileFilter f \<noteq> Inr True \<Longrightarrow>
   upload_single u e s (Some f) = (s, Inl (Error ''Only audio files are allowed!''))"
  using fileFilter_cases [of f] by (simp add: upload_single_def)

lemma upload_rejected_size:
  "fileFilter f = Inr True \<Longrightarrow> fileSize \<le> part_size f \<Longrightarrow>
   upload_single u e s (Some f) =
     (unlink (storage_path u e) (write_file (storage_path u e) (mkdir_uploads s)),
      Inl (MulterError ''LIMIT_FILE_SIZE'' ''File too large''))"
  by (simp add: upload_single_def Let_def)

text \<open>A part that passes the filter and reaches the size limit is answered 400, also at
  exactly \<open>limits.fileSize\<close> bytes.\<close>

lemma size_limit_answers_400:
  "fileFilter f = Inr True \<Longrightarrow> fileSize \<le> part_size f \<Longrightarrow>
   snd (post_transcribe env s (Some f)) =
     (400, Failure ''File too large'' ''Audio file must be smaller than 10MB'')"
  by (simp add: post_transcribe_def upload_rejected_size error_middleware_def)

lemma edge_part_not_accepted: "\<not> accepted edge_part"
  by (simp add: accepted_def edge_part_def fileSize_def)

lemma upload_accepted:
  "accepted f \<Longrightarrow>
   upload_single u e s (Some f) =
     (write_file (storage_path u e) (mkdir_uploads s),
      Inr (Some \<lparr>filename = storage_filename u e, path = storage_path u e,
                 size_bytes = part_size f, file_mimetype = mimetype f\<rparr>))"
  by (simp add: upload_single_def Let_def accepted_def)

lemma files_after_removal: "files (unlink p (write_file p (mkdir_uploads s))) \<subseteq> files s"
  by (auto simp: unlink_def write_file_def mkdir_uploads_def)

lemma calls_after_removal:
  "provider_calls (unlink p (write_file p (mkdir_uploads s))) = provider_calls s"
  by (simp add: unlink_def write_file_def mkdir_uploads_def)

lemma transcribe_result:
  "transcribe n s (Some f) (ProviderReturns (Some r) None) =
     (unlink (path f) (s\<lparr>provider_calls := provider_calls s @ [path f]\<rparr>),
      200, Success \<lparr>transcript = or_string (chain_transcript r) [],
                    confidence = or_number (chain_confidence r) 0,
                    word_count = length (or_array (chain_words r) []),
                    duration = or_number (chain_duration r) 0,
                    words = slice0 10 (or_array (chain_words r) []),
                    response_meta = \<lparr>model = options_model, language = options_language,
                                     processed_at = n\<rparr>\<rparr>)"
  by (simp add: transcribe_def Let_def)

text \<open>The optional chain yields nothing exactly when a level on the way is absent or an
  indexed array is empty.\<close>

lemma first_alternative_absent:
  "first_alternative r = None \<longleftrightarrow>
     (case results r of
        None \<Rightarrow> True
      | Some rs \<Rightarrow>
          (case channels rs of
             None \<Rightarrow> True
           | Some [] \<Rightarrow> True
           | Some (ch # _) \<Rightarrow>
               (case alternatives ch of None \<Rightarrow> True | Some [] \<Rightarrow> True | Some (a # _) \<Rightarrow> False)))"
  by (simp add: first_alternative_def first_opt_def split: option.splits list.splits)

lemma chain_result_with:
  "chain_transcript (result_with t c ws) = t"
  "chain_confidence (result_with t c ws) = c"
  "chain_words (result_with t c ws) = ws"
  "chain_duration (result_with t c ws) = Some 3"
  by (simp_all add: chain_words_def chain_transcript_def chain_confidence_def chain_duration_def
      result_with_def first_alternative_def first_opt_def)

text \<open>The body of a 200 answer, for an accepted upload and a provider result.\<close>

lemma post_result:
  "accepted f \<Longrightarrow>
   body_of (post_transcribe (env_with (ProviderReturns (Some r) None)) s (Some f)) =
     Success \<lparr>transcript = or_string (chain_transcript r) [],
              confidence = or_number (chain_confidence r) 0,
              word_count = length (or_array (chain_words r) []),
              duration = or_number (chain_duration r) 0,
              words = slice0 10 (or_array (chain_words r) []),
              response_meta = \<lparr>model = options_model, language = options_language,
                               processed_at = ''2025-06-22T08:15:34.324Z''\<rparr>\<rparr>"
  by (simp add: post_transcribe_def upload_accepted transcribe_result body_of_def env_with_def)

text \<open>Every success body comes from a provider result without error, and is built from
  it field by field.\<close>

lemma success_shape:
  assumes "body_of (post_transcribe env s part) = Success t"
  shows "\<exists>r. provider_io env = ProviderReturns (Some r) None
            \<and> word_count t = length (or_array (chain_words r) [])
            \<and> words t = slice0 10 (or_array (chain_words r) [])
            \<and> transcript t = or_string (chain_transcript r) []"
  using assms
  by (auto simp: post_transcribe_def body_of_def upload_single_def transcribe_def catch_block_def
      error_middleware_def Let_def
      split: option.splits sum.splits if_splits io.splits prod.splits upload_error.splits)

subsection \<open>Cleanup after a provider error\<close>

text \<open>
  Claim C1 says that the relay deletes the temporary file of every accepted upload, also
  when the provider reports an error. The handler returns from the \<open>if (error)\<close>
  branch before it reaches \<open>fs.unlink\<close>: for the accepted upload \<open>speech.wav\<close> and
  a provider that returns the error \<open>Bad Request\<close>, the relay answers 500 and the
  stored file is still in the upload directory.
\<close>

theorem provider_error_leaves_upload:
  "accepted wav_part
   \<and> post_transcribe (env_with (ProviderReturns None (Some (Some ''Bad Request''))))
        empty_server (Some wav_part)
     = (\<lparr>uploads_dir = True,
         files = {''uploads/audio-1718000000000-42.wav''},
         provider_calls = [''uploads/audio-1718000000000-42.wav'']\<rparr>,
        500, Failure ''Transcription failed'' ''Bad Request'')"
  by (simp add: accepted_wav_part post_transcribe_def upload_accepted env_with_def transcribe_def
      Let_def or_string_def storage_path_def storage_filename_def write_file_def
      mkdir_uploads_def empty_server_def)

subsection \<open>Rejected uploads\<close>

text \<open>
  Claim C2: for every upload that the type filter or the size limit rejects, no file is
  on storage afterwards that was not there before, and no call to the provider is made.
  The size limit rejects a part of \<open>limits.fileSize\<close> bytes or more.
\<close>

theorem rejected_upload_leaves_nothing:
  assumes "fileFilter f \<noteq> Inr True \<or> fileSize \<le> part_size f"
  shows "files (fst (post_transcribe env s (Some f))) \<subseteq> files s
       \<and> provider_calls (fst (post_transcribe env s (Some f))) = provider_calls s"
proof (cases "fileFilter f = Inr True")
  case False
  then show ?thesis
    by (simp add: post_transcribe_def upload_rejected_type)
next
  case True
  with assms have big: "fileSize \<le> part_size f" by simp
  show ?thesis
    by (simp add: post_transcribe_def upload_rejected_size [OF True big]
        files_after_removal calls_after_removal)
qed

text \<open>The 15 MiB upload \<open>long.wav\<close> and the upload \<open>edge.wav\<close> of exactly 10 MiB
  pass the filter and are rejected for their size, and \<open>notes.txt\<close> is rejected by
  the filter: nothing is stored, the provider is not called.\<close>

theorem rejected_upload_witness:
  "fileSize \<le> part_size big_part
   \<and> files (fst (post_transcribe (env_with (ProviderThrows [])) empty_server (Some big_part))) = {}
   \<and> provider_calls
        (fst (post_transcribe (env_with (ProviderThrows [])) empty_server (Some big_part))) = []
   \<and> fileSize \<le> part_size edge_part
   \<and> files (fst (post_transcribe (env_with (ProviderThrows [])) empty_server (Some edge_part))) = {}
   \<and> provider_calls
        (fst (post_transcribe (env_with (ProviderThrows [])) empty_server (Some edge_part))) = []
   \<and> fileFilter txt_part \<noteq> Inr True
   \<and> files (fst (post_transcribe (env_with (ProviderThrows [])) empty_server (Some txt_part))) = {}
   \<and> provider_calls
        (fst (post_transcribe (env_with (ProviderThrows [])) empty_server (Some txt_part))) = []"
proof -
  have big: "fileSize \<le> part_size big_part"
    by (simp add: big_part_def fileSize_def)
  have edge: "fileSize \<le> part_size edge_part"
    by (simp add: edge_part_def fileSize_def)
  have plain: "fileFilter txt_part \<noteq> Inr True"
    by (simp add: txt_part_fails)
  have h1: "fileFilter big_part \<noteq> Inr True \<or> fileSize \<le> part_size big_part"
    using big by simp
  have h2: "fileFilter edge_part \<noteq> Inr True \<or> fileSize \<le> part_size edge_part"
    using edge by simp
  have h3: "fileFilter txt_part \<noteq> Inr True \<or> fileSize \<le> part_size txt_part"
    using plain by simp
  from rejected_upload_leaves_nothing [OF h1, of "env_with (ProviderThrows [])" empty_server]
    rejected_upload_leaves_nothing [OF h2, of "env_with (ProviderThrows [])" empty_server]
    rejected_upload_leaves_nothing [OF h3, of "env_with (ProviderThrows [])" empty_server]
    big edge plain
  show ?thesis
    by (simp add: empty_server_def)
qed

subsection \<open>Normalisation\<close>

text \<open>
  Claim C3: when the provider's result lacks the nested transcript, confidence or words,
  the relay answers 200 with the empty string, 0 and the empty list in their places.
\<close>

theorem absent_fields_default:
  assumes "accepted f"
    and "provider_io env = ProviderReturns (Some r) None"
  shows "status (post_transcribe env s (Some f)) = 200
       \<and> (\<exists>t. body_of (post_transcribe env s (Some f)) = Success t
            \<and> (chain_transcript r = None \<longrightarrow> transcript t = [])
            \<and> (chain_confidence r = None \<longrightarrow> confidence t = 0)
            \<and> (chain_words r = None \<longrightarrow> words t = []))"
  using assms
  by (simp add: post_transcribe_def upload_accepted transcribe_result status_def body_of_def
      or_string_def or_number_def or_array_def slice0_def)

text \<open>A result object with no \<open>results\<close> at all.\<close>

theorem absent_fields_default_witness:
  "accepted wav_part
   \<and> status (post_transcribe
               (env_with (ProviderReturns (Some \<lparr>results = None, metadata = None\<rparr>) None))
               empty_server (Some wav_part)) = 200
   \<and> (\<exists>t. body_of (post_transcribe
                     (env_with (ProviderReturns (Some \<lparr>results = None, metadata = None\<rparr>) None))
                     empty_server (Some wav_part)) = Success t
        \<and> transcript t = [] \<and> confidence t = 0 \<and> words t = [])"
proof -
  let ?r = "\<lparr>results = None, metadata = None\<rparr>"
  have b: "provider_io (env_with (ProviderReturns (Some ?r) None)) = ProviderReturns (Some ?r) None"
    by (simp add: env_with_def)
  have c: "chain_transcript ?r = None" "chain_confidence ?r = None" "chain_words ?r = None"
    by (simp_all add: chain_transcript_def chain_confidence_def chain_words_def
        first_alternative_def)
  from absent_fields_default [OF accepted_wav_part b, of empty_server] accepted_wav_part c
  show ?thesis by simp
qed

subsection \<open>The word list and the word count\<close>

text \<open>Claim C4: the \<open>words\<close> array of a success response has at most 10 entries.\<close>

theorem words_at_most_ten:
  "body_of (post_transcribe env s part) = Success t \<Longrightarrow> length (words t) \<le> 10"
  using success_shape [of env s part t] by (auto simp: slice0_def)

text \<open>Twelve timed words from the provider: the count is 12, the list is cut.\<close>

theorem words_at_most_ten_witness:
  "\<exists>t. body_of (post_transcribe
                  (env_with (ProviderReturns
                     (Some (result_with (Some ''the quick'') (Some 1) (Some twelve_words))) None))
                  empty_server (Some wav_part)) = Success t
      \<and> word_count t = 12 \<and> length (words t) \<le> 10"
proof -
  let ?e = "env_with (ProviderReturns
              (Some (result_with (Some ''the quick'') (Some 1) (Some twelve_words))) None)"
  obtain t where t: "body_of (post_transcribe ?e empty_server (Some wav_part)) = Success t"
    and n: "word_count t = 12"
    by (simp add: post_result [OF accepted_wav_part] chain_result_with or_array_def
        twelve_words_def)
  from words_at_most_ten [OF t] t n show ?thesis by blast
qed

text \<open>
  Claim C6 says that \<open>word_count\<close> is the number of words in the returned transcript
  text. The relay does not count the words of the text: for the transcript
  \<open>hello world\<close> with no word list the response carries the count 0, and the text has
  two words.
\<close>

theorem word_count_not_text_words:
  "body_of (post_transcribe
              (env_with (ProviderReturns
                 (Some (result_with (Some ''hello world'') (Some 1) None)) None))
              empty_server (Some wav_part)) = Success hello_response
   \<and> word_count hello_response \<noteq> words_in_text (transcript hello_response)"
  by (simp add: post_result [OF accepted_wav_part] chain_result_with or_array_def or_string_def
      or_number_def slice0_def words_in_text_def hello_response_def options_model_def
      options_language_def)

text \<open>
  Claim C6 as amended: in every success response \<open>word_count\<close> is the length of the
  provider's word list before it is cut to ten entries, and 0 when that list is absent.
\<close>

theorem word_count_is_provider_words:
  assumes "body_of (post_transcribe env s part) = Success t"
  shows "\<exists>r. provider_io env = ProviderReturns (Some r) None
            \<and> word_count t = (case chain_words r of None \<Rightarrow> 0 | Some ws \<Rightarrow> length ws)"
  using success_shape [OF assms] by (auto simp: or_array_def split: option.splits)

text \<open>Twelve timed words from the provider under a transcript of two words: the count
  is 12.\<close>

theorem word_count_is_provider_words_witness:
  "\<exists>t r. body_of (post_transcribe
                    (env_with (ProviderReturns
                       (Some (result_with (Some ''the quick'') (Some 1) (Some twelve_words))) None))
                    empty_server (Some wav_part)) = Success t
        \<and> provider_io (env_with (ProviderReturns
                       (Some (result_with (Some ''the quick'') (Some 1) (Some twelve_words))) None))
            = ProviderReturns (Some r) None
        \<and> word_count t = (case chain_words r of None \<Rightarrow> 0 | Some ws \<Rightarrow> length ws)
        \<and> word_count t = 12"
proof -
  let ?e = "env_with (ProviderReturns
              (Some (result_with (Some ''the quick'') (Some 1) (Some twelve_words))) None)"
  obtain t where t: "body_of (post_transcribe ?e empty_server (Some wav_part)) = Success t"
    and n: "word_count t = 12"
    by (simp add: post_result [OF accepted_wav_part] chain_result_with or_array_def
        twelve_words_def)
  from word_count_is_provider_words [OF t] t n show ?thesis by blast
qed

subsection \<open>The answer to a rejected file type\<close>

text \<open>
  Claim C5 says that a file outside the allowed audio set is rejected with a client-error
  response. The filter rejects \<open>notes.txt\<close> of type \<open>text/plain\<close> with a plain
  \<open>Error\<close>, which the error middleware does not recognise: the answer is 500
  \<open>Internal server error\<close>, where the size limit and the missing file are answered 400.
\<close>

theorem rejected_type_answers_500:
  "\<not> hasValidMime txt_part \<and> \<not> hasValidExtension txt_part
   \<and> post_transcribe env s (Some txt_part)
     = (s, 500, Failure ''Internal server error'' ''Only audio files are allowed!'')"
proof -
  have "\<not> (hasValidMime txt_part \<or> hasValidExtension txt_part)"
    using txt_part_fails by (auto simp: fileFilter_def split: if_splits)
  then show ?thesis
    by (simp add: post_transcribe_def upload_single_def txt_part_fails error_middleware_def
        or_string_def)
qed

section \<open>Properties of the client\<close>

lemmas submit_defs =
  transcribeAudio_def transcribeAudio_begin_def transcribeAudio_finish_def
  try_block_def showProcessing_def showStatus_def

lemmas recording_defs =
  startRecording_def armed_def updateRecordingUI_def startAudioVisualization_def showStatus_def

lemma transcribe_success:
  "transcribeAudio s a (Parsed (Success r)) =
     showProcessing (showStatus (displayTranscription (transcribeAudio_begin s a) r)
       ''Transcription completed successfully!'' ''success'') False"
  by (simp add: transcribeAudio_def transcribeAudio_finish_def try_block_def)

subsection \<open>Picking a file that is not audio\<close>

text \<open>
  Claim C7 says that a file whose declared type does not indicate audio is rejected with
  a status message and not submitted, from the picker as from a drop. Only
  \<open>handleFileDrop\<close> tests the type: \<open>handleFileSelect\<close> posts \<open>notes.txt\<close> of type
  \<open>text/plain\<close> to the relay and shows no such message, and the same file dropped is
  not posted.
\<close>

theorem picker_submits_non_audio:
  "\<not> startsWith (file_type txt_file) ''audio/''
   \<and> requests (handleFileSelect s [txt_file] outcome) = requests s @ [File txt_file]
   \<and> statusMessages
       (handleFileSelect fresh_app [txt_file]
          (Parsed (Failure ''Internal server error'' ''Only audio files are allowed!'')))
     = [(''Transcription failed: Only audio files are allowed!'', ''error'')]
   \<and> requests (handleFileDrop s [txt_file] outcome) = requests s
   \<and> statusMessages (handleFileDrop s [txt_file] outcome)
     = statusMessages s @ [(''Please upload an audio file'', ''error'')]"
  apply (intro conjI)
  subgoal by (simp add: txt_file_def startsWith_def)
  subgoal by (simp add: handleFileSelect_def submit_defs displayTranscription_def
        split: fetch_outcome.splits body.splits)
  subgoal by (simp add: handleFileSelect_def submit_defs fresh_app_def or_string_def)
  subgoal by (simp add: handleFileDrop_def txt_file_def startsWith_def showStatus_def)
  subgoal by (simp add: handleFileDrop_def txt_file_def startsWith_def showStatus_def)
  done

subsection \<open>A second start while capturing\<close>



text \<open>
  The start itself is not guarded: a start that was requested before the client was
  capturing and settles while it is capturing installs a new recorder and empties the
  buffer. Two clicks before the microphone is granted are both pending; the second
  settles after the first has started and a chunk has arrived.
\<close>

lemma pending_start_settles_into_capture:
  "pending_starts clicked_twice = 2
   \<and> isRecording (client first_start_running)
   \<and> audioChunks (client first_start_running) = [[82, 73, 70, 70]]
   \<and> mediaRecorder (client first_start_running) = Some (MediaRecorder 1)
   \<and> audioChunks (client (getUserMedia_settles first_start_running (Started 2))) = []
   \<and> mediaRecorder (client (getUserMedia_settles first_start_running (Started 2)))
     = Some (MediaRecorder 2)"
  by (simp add: first_start_running_def clicked_twice_def click_recordBtn_def
      getUserMedia_settles_def during_capture_def ondataavailable_def recording_defs
      fresh_app_def)


subsection \<open>A failed submission\<close>

text \<open>
  Claim C9: when the response indicates failure, the client shows the error message as
  a status and leaves the stored transcription, the rendered transcript, the metadata
  and the states of the action buttons as they were.
\<close>

theorem failure_keeps_result_state:
  "statusMessages (transcribeAudio s a (Parsed (Failure e m)))
     = statusMessages s @
         [(''Transcription failed: '' @ or_string (Some m) ''Transcription failed'', ''error'')]
   \<and> currentTranscription (transcribeAudio s a (Parsed (Failure e m))) = currentTranscription s
   \<and> transcriptionResult (transcribeAudio s a (Parsed (Failure e m))) = transcriptionResult s
   \<and> transcriptionMeta_display (transcribeAudio s a (Parsed (Failure e m)))
     = transcriptionMeta_display s
   \<and> confidenceScore (transcribeAudio s a (Parsed (Failure e m))) = confidenceScore s
   \<and> wordCount (transcribeAudio s a (Parsed (Failure e m))) = wordCount s
   \<and> audioDuration (transcribeAudio s a (Parsed (Failure e m))) = audioDuration s
   \<and> modelUsed (transcribeAudio s a (Parsed (Failure e m))) = modelUsed s
   \<and> copyBtn_disabled (transcribeAudio s a (Parsed (Failure e m))) = copyBtn_disabled s
   \<and> downloadBtn_disabled (transcribeAudio s a (Parsed (Failure e m))) = downloadBtn_disabled s
   \<and> clearBtn_disabled (transcribeAudio s a (Parsed (Failure e m))) = clearBtn_disabled s"
  by (simp add: submit_defs)

subsection \<open>Actions on an empty transcript\<close>

text \<open>
  Claim C10: after a successful transcription whose transcript is empty the copy button
  is enabled, but copying writes nothing to the clipboard and shows no status (the state
  is unchanged); download still produces a file from the stored result and clear still
  resets it.
\<close>

theorem empty_transcript_actions:
  assumes "transcript r = []"
    and "s1 = transcribeAudio s a (Parsed (Success r))"
  shows "\<not> copyBtn_disabled s1
       \<and> copyTranscription s1 fulfilled = s1
       \<and> currentTranscription s1 = Some r
       \<and> \<not> downloadBtn_disabled s1
       \<and> \<not> clearBtn_disabled s1
       \<and> downloads (downloadTranscription s1 date_now locale_time) =
           downloads s1 @
             [\<lparr>stamp = date_now, generated = locale_time,
               download_model = model (response_meta r),
               download_confidence = RoundedPercent (confidence r),
               download_duration = Fixed1Seconds (duration r),
               download_word_count = Count (word_count r),
               download_transcript = []\<rparr>]
       \<and> statusMessages (downloadTranscription s1 date_now locale_time) =
           statusMessages s1 @ [(''Transcription downloaded!'', ''success'')]
       \<and> currentTranscription (clearTranscription s1) = None
       \<and> transcriptionResult (clearTranscription s1) = Placeholder
       \<and> copyBtn_disabled (clearTranscription s1)"
  using assms
  by (simp add: transcribe_success displayTranscription_def showStatus_def showProcessing_def
      transcribeAudio_begin_def copyTranscription_def downloadTranscription_def
      clearTranscription_def)

text \<open>On a fresh client and a response with an empty transcript: copying changes
  nothing and the clipboard stays empty.\<close>

theorem empty_transcript_actions_witness:
  "transcript silent_response = []
   \<and> copyTranscription
       (transcribeAudio fresh_app (File txt_file) (Parsed (Success silent_response))) True
     = transcribeAudio fresh_app (File txt_file) (Parsed (Success silent_response))
   \<and> clipboard
       (copyTranscription
          (transcribeAudio fresh_app (File txt_file) (Parsed (Success silent_response))) True)
     = []
   \<and> \<not> copyBtn_disabled
         (transcribeAudio fresh_app (File txt_file) (Parsed (Success silent_response)))"
proof -
  have e: "transcript silent_response = []"
    by (simp add: silent_response_def)
  have c: "clipboard (transcribeAudio fresh_app (File txt_file) (Parsed (Success silent_response)))
             = []"
    by (simp add: transcribe_success displayTranscription_def showStatus_def showProcessing_def
        transcribeAudio_begin_def fresh_app_def)
  from empty_transcript_actions [OF e refl, of fresh_app "File txt_file" True] e c
  show ?thesis by simp
qed

end
